theory Spec2Isabelle
  imports Main "HOL-Library.Word"
begin

section \<open>Python values used by the sampler and the dataset\<close>

text \<open>
  The exceptions the modelled code can raise: \<open>IndexError\<close> (indexing a list out of
  range, \<open>random.choice\<close> on an empty list), \<open>TypeError\<close> (\<open>epoch in n\<close> for an int
  \<open>n\<close>), \<open>ValueError\<close> (\<open>np.zeros\<close> with a negative dimension, \<open>int\<close> of a float
  that is not a number) and \<open>OverflowError\<close> (\<open>int\<close> of an infinite float, a float
  product of an int too large for a float).
\<close>

datatype error = IndexError | TypeError | ValueError | OverflowError

text \<open>
  Python's slice \<open>xs[lo:hi]\<close> for int bounds: a negative bound counts from the end, and
  every bound is clamped to the list. \<open>xs[:hi]\<close> is \<open>py_slice xs 0 hi\<close>. A slice is a
  fresh list, so extending it leaves \<open>xs\<close> as it is.
\<close>

definition py_bound :: "int \<Rightarrow> int \<Rightarrow> int" where
  "py_bound n i = (if i < 0 then max (i + n) 0 else min i n)"

definition py_slice :: "'a list \<Rightarrow> int \<Rightarrow> int \<Rightarrow> 'a list" where
  "py_slice xs lo hi =
     (let n = int (length xs); l = py_bound n lo; h = py_bound n hi
      in take (nat (h - l)) (drop (nat l) xs))"

text \<open>
  Python's \<open>xs[i]\<close> for an int \<open>i\<close>: the position read, or \<open>IndexError\<close>.
\<close>

definition py_index :: "'a list \<Rightarrow> int \<Rightarrow> error + nat" where
  "py_index xs i =
     (let n = int (length xs); j = (if i < 0 then n + i else i)
      in if 0 \<le> j \<and> j < n then Inr (nat j) else Inl IndexError)"

text \<open>
  \<open>del xs[i]\<close> at a position already resolved by \<open>py_index\<close>.
\<close>

definition py_del :: "'a list \<Rightarrow> nat \<Rightarrow> 'a list" where
  "py_del xs j = take j xs @ drop (Suc j) xs"

text \<open>
  \<open>random.choice(xs)\<close> is \<open>xs[randbelow(len(xs))]\<close> and raises \<open>IndexError\<close> on an
  empty list. The random source is a list of naturals, one consumed per call; the draw
  \<open>r\<close> is reduced below \<open>len(xs)\<close>.
\<close>

definition random_choice :: "nat \<Rightarrow> 'a list \<Rightarrow> error + 'a" where
  "random_choice r xs = (if xs = [] then Inl IndexError else Inr (xs ! (r mod length xs)))"

section \<open>The variable batch sampler\<close>

text \<open>
  \<open>scale_ep_intervals\<close> is annotated \<open>Union[list, int]\<close>.
\<close>

datatype ep_intervals = EpList "int list" | EpInt int

text \<open>
  \<open>epoch in scale_ep_intervals\<close>: membership in a list; an int is not iterable.
\<close>

fun py_in :: "int \<Rightarrow> ep_intervals \<Rightarrow> error + bool" where
  "py_in epoch (EpList xs) = Inr (epoch \<in> set xs)"
| "py_in epoch (EpInt n) = Inl TypeError"

type_synonym img_batch_tuple = "int \<times> int \<times> int"

text \<open>
  What the sampler uses and this file does not define:
  \<^item> \<open>DEFAULT_IMAGE_WIDTH\<close>, \<open>DEFAULT_IMAGE_HEIGHT\<close>, imported from \<open>common\<close>;
  \<^item> \<open>_image_batch_pairs\<close>, imported from \<open>.utils\<close>, with its ten keyword arguments in
    the order \<open>crop_size_h\<close>, \<open>crop_size_w\<close>, \<open>batch_size_gpu0\<close>, \<open>n_gpus\<close>,
    \<open>max_scales\<close>, \<open>check_scale_div_factor\<close>, \<open>min_crop_size_w\<close>, \<open>max_crop_size_w\<close>,
    \<open>min_crop_size_h\<close>, \<open>max_crop_size_h\<close>;
  \<^item> Python's floats, a type \<open>'f\<close>: the literal \<open>1.0\<close> and \<open>int(b * f)\<close> for an int
    \<open>b\<close> and a float \<open>f\<close>, which is the float product truncated towards zero, or the
    exception that the product or \<open>int\<close> raises (\<open>OverflowError\<close> on an infinite
    product, \<open>ValueError\<close> on one that is not a number).
  They are parameters of the model.
\<close>

record 'f env =
  DEFAULT_IMAGE_WIDTH :: int
  DEFAULT_IMAGE_HEIGHT :: int
  image_batch_pairs ::
    "int \<Rightarrow> int \<Rightarrow> int \<Rightarrow> int \<Rightarrow> int \<Rightarrow> int \<Rightarrow> int \<Rightarrow> int \<Rightarrow> int \<Rightarrow> int \<Rightarrow> img_batch_tuple list"
  float_one :: 'f
  int_of_product :: "int \<Rightarrow> 'f \<Rightarrow> error + int"

text \<open>
  The command line options read by \<open>getattr(opts, name, default)\<close>: \<open>None\<close> is an
  attribute that is not set, for which \<open>getattr\<close> returns the default.
\<close>

record 'f opts =
  opt_crop_size_width :: "int option"
  opt_crop_size_height :: "int option"
  opt_min_crop_size_width :: "int option"
  opt_max_crop_size_width :: "int option"
  opt_min_crop_size_height :: "int option"
  opt_max_crop_size_height :: "int option"
  opt_scale_inc :: "bool option"
  opt_ep_intervals :: "ep_intervals option"
  opt_min_scale_inc_factor :: "'f option"
  opt_max_scale_inc_factor :: "'f option"
  opt_check_scale :: "int option"
  opt_max_n_scales :: "int option"

definition getattr :: "'a option \<Rightarrow> 'a \<Rightarrow> 'a" where
  "getattr v d = (case v of None \<Rightarrow> d | Some x \<Rightarrow> x)"

text \<open>
  The fields both sampler classes set in \<open>__init__\<close>, with \<open>batch_size_gpu0\<close> from the
  base class. \<open>VariableBatchSampler\<close> adds the base class's \<open>n_gpus\<close>,
  \<open>VariableBatchSamplerDDP\<close> the base class's \<open>num_replicas\<close>.
\<close>

record 'f sampler =
  min_crop_size_w :: int
  max_crop_size_w :: int
  min_crop_size_h :: int
  max_crop_size_h :: int
  crop_size_w :: int
  crop_size_h :: int
  min_scale_inc_factor :: 'f
  max_scale_inc_factor :: 'f
  scale_ep_intervals :: ep_intervals
  max_img_scales :: int
  check_scale_div_factor :: int
  scale_inc :: bool
  batch_size_gpu0 :: int
  img_batch_tuples :: "img_batch_tuple list"

record 'f sampler_dp = "'f sampler" +
  n_gpus :: int

record 'f sampler_ddp = "'f sampler" +
  num_replicas :: int

subsection \<open>\<open>__init__\<close>\<close>

text \<open>
  \<open>VariableBatchSampler.__init__\<close>. The base class's \<open>__init__\<close> sets
  \<open>batch_size_gpu0\<close> and \<open>n_gpus\<close>; they are arguments here. An int
  \<open>scale_ep_intervals\<close> becomes a one-element list.
\<close>

definition init_dp :: "'f env \<Rightarrow> 'f opts \<Rightarrow> int \<Rightarrow> int \<Rightarrow> bool \<Rightarrow> 'f sampler_dp" where
  "init_dp E opts bsz ngpus is_training =
     (let crop_w = getattr (opt_crop_size_width opts) (DEFAULT_IMAGE_WIDTH E);
          crop_h = getattr (opt_crop_size_height opts) (DEFAULT_IMAGE_HEIGHT E);
          min_w = getattr (opt_min_crop_size_width opts) 160;
          max_w = getattr (opt_max_crop_size_width opts) 320;
          min_h = getattr (opt_min_crop_size_height opts) 160;
          max_h = getattr (opt_max_crop_size_height opts) 320;
          sc_inc = getattr (opt_scale_inc opts) False;
          ep = getattr (opt_ep_intervals opts) (EpList [40]);
          min_f = getattr (opt_min_scale_inc_factor opts) (float_one E);
          max_f = getattr (opt_max_scale_inc_factor opts) (float_one E);
          check = getattr (opt_check_scale opts) 32;
          max_scales = getattr (opt_max_n_scales opts) 10;
          ep = (case ep of EpInt n \<Rightarrow> EpList [n] | EpList xs \<Rightarrow> EpList xs)
      in \<lparr> min_crop_size_w = min_w, max_crop_size_w = max_w,
           min_crop_size_h = min_h, max_crop_size_h = max_h,
           crop_size_w = crop_w, crop_size_h = crop_h,
           min_scale_inc_factor = min_f, max_scale_inc_factor = max_f,
           scale_ep_intervals = ep,
           max_img_scales = max_scales, check_scale_div_factor = check,
           scale_inc = sc_inc,
           batch_size_gpu0 = bsz,
           img_batch_tuples =
             (if is_training
              then image_batch_pairs E crop_h crop_w bsz ngpus max_scales check
                     min_w max_w min_h max_h
              else [(crop_h, crop_w, bsz)]),
           n_gpus = ngpus \<rparr>)"

text \<open>
  \<open>VariableBatchSamplerDDP.__init__\<close>: \<open>scale_ep_intervals\<close> is stored as it was
  given.
\<close>

definition init_ddp :: "'f env \<Rightarrow> 'f opts \<Rightarrow> int \<Rightarrow> int \<Rightarrow> bool \<Rightarrow> 'f sampler_ddp" where
  "init_ddp E opts bsz replicas is_training =
     (let crop_w = getattr (opt_crop_size_width opts) (DEFAULT_IMAGE_WIDTH E);
          crop_h = getattr (opt_crop_size_height opts) (DEFAULT_IMAGE_HEIGHT E);
          min_w = getattr (opt_min_crop_size_width opts) 160;
          max_w = getattr (opt_max_crop_size_width opts) 320;
          min_h = getattr (opt_min_crop_size_height opts) 160;
          max_h = getattr (opt_max_crop_size_height opts) 320;
          sc_inc = getattr (opt_scale_inc opts) False;
          ep = getattr (opt_ep_intervals opts) (EpList [40]);
          min_f = getattr (opt_min_scale_inc_factor opts) (float_one E);
          max_f = getattr (opt_max_scale_inc_factor opts) (float_one E);
          check = getattr (opt_check_scale opts) 32;
          max_scales = getattr (opt_max_n_scales opts) 10
      in \<lparr> min_crop_size_w = min_w, max_crop_size_w = max_w,
           min_crop_size_h = min_h, max_crop_size_h = max_h,
           crop_size_w = crop_w, crop_size_h = crop_h,
           min_scale_inc_factor = min_f, max_scale_inc_factor = max_f,
           scale_ep_intervals = ep,
           max_img_scales = max_scales, check_scale_div_factor = check,
           scale_inc = sc_inc,
           batch_size_gpu0 = bsz,
           img_batch_tuples =
             (if is_training
              then image_batch_pairs E crop_h crop_w bsz replicas max_scales check
                     min_w max_w min_h max_h
              else [(crop_h, crop_w, bsz)]),
           num_replicas = replicas \<rparr>)"

subsection \<open>\<open>__iter__\<close>\<close>

text \<open>
  A batch is a list of triples \<open>(crop_h, crop_w, b_id)\<close>. How a pass ended:
  \<open>Exhausted\<close> when the loop condition failed (the generator is exhausted), \<open>Raised\<close>
  when \<open>random.choice\<close> raised, \<open>Pending\<close> when the random source given ran out
  while \<open>start_index < n_samples\<close> still held. The batches yielded up to that point
  are returned in each case.
\<close>

datatype outcome = Exhausted | Raised error | Pending

type_synonym batch = "(int \<times> int \<times> int) list"

text \<open>
  One turn of the loop of \<open>VariableBatchSampler.__iter__\<close> after the tuple was chosen:
  the new \<open>start_index\<close> and the batch yielded, if any.
\<close>

definition iter_body_dp :: "int list \<Rightarrow> int \<Rightarrow> img_batch_tuple \<Rightarrow> int \<times> batch list" where
  "iter_body_dp img_indices start_index t =
     (case t of (crop_h, crop_w, batch_size) \<Rightarrow>
        let n_samples = int (length img_indices);
            end_index = min (start_index + batch_size) n_samples;
            batch_ids = py_slice img_indices start_index end_index;
            n_batch_samples = int (length batch_ids);
            batch_ids = (if int (length batch_ids) \<noteq> batch_size
                         then batch_ids @ py_slice img_indices 0 (batch_size - n_batch_samples)
                         else batch_ids);
            start_index = start_index + batch_size
        in (start_index,
            if length batch_ids > 0
            then [map (\<lambda>b_id. (crop_h, crop_w, b_id)) batch_ids]
            else []))"

fun iter_loop_dp ::
  "img_batch_tuple list \<Rightarrow> int list \<Rightarrow> int \<Rightarrow> nat list \<Rightarrow> batch list \<times> outcome" where
  "iter_loop_dp tuples img_indices start_index [] =
     ([], if start_index < int (length img_indices) then Pending else Exhausted)"
| "iter_loop_dp tuples img_indices start_index (r # rs) =
     (if start_index < int (length img_indices) then
        (case random_choice r tuples of
           Inl e \<Rightarrow> ([], Raised e)
         | Inr t \<Rightarrow>
             (case iter_body_dp img_indices start_index t of (start_index', yielded) \<Rightarrow>
                (case iter_loop_dp tuples img_indices start_index' rs of (rest, out) \<Rightarrow>
                   (yielded @ rest, out))))
      else ([], Exhausted))"

text \<open>
  \<open>VariableBatchSampler.__iter__\<close>: \<open>img_indices\<close> is what the base class's
  \<open>get_indices()\<close> returned.
\<close>

definition iter_dp :: "'f sampler_dp \<Rightarrow> int list \<Rightarrow> nat list \<Rightarrow> batch list \<times> outcome" where
  "iter_dp s img_indices rs = iter_loop_dp (img_batch_tuples s) img_indices 0 rs"

text \<open>
  The loop of \<open>VariableBatchSamplerDDP.__iter__\<close>, which tests
  \<open>n_batch_samples != batch_size\<close>.
\<close>

definition iter_body_ddp :: "int list \<Rightarrow> int \<Rightarrow> img_batch_tuple \<Rightarrow> int \<times> batch list" where
  "iter_body_ddp indices_rank_i start_index t =
     (case t of (crop_h, crop_w, batch_size) \<Rightarrow>
        let n_samples_rank_i = int (length indices_rank_i);
            end_index = min (start_index + batch_size) n_samples_rank_i;
            batch_ids = py_slice indices_rank_i start_index end_index;
            n_batch_samples = int (length batch_ids);
            batch_ids = (if n_batch_samples \<noteq> batch_size
                         then batch_ids @ py_slice indices_rank_i 0 (batch_size - n_batch_samples)
                         else batch_ids);
            start_index = start_index + batch_size
        in (start_index,
            if length batch_ids > 0
            then [map (\<lambda>b_id. (crop_h, crop_w, b_id)) batch_ids]
            else []))"

fun iter_loop_ddp ::
  "img_batch_tuple list \<Rightarrow> int list \<Rightarrow> int \<Rightarrow> nat list \<Rightarrow> batch list \<times> outcome" where
  "iter_loop_ddp tuples indices_rank_i start_index [] =
     ([], if start_index < int (length indices_rank_i) then Pending else Exhausted)"
| "iter_loop_ddp tuples indices_rank_i start_index (r # rs) =
     (if start_index < int (length indices_rank_i) then
        (case random_choice r tuples of
           Inl e \<Rightarrow> ([], Raised e)
         | Inr t \<Rightarrow>
             (case iter_body_ddp indices_rank_i start_index t of (start_index', yielded) \<Rightarrow>
                (case iter_loop_ddp tuples indices_rank_i start_index' rs of (rest, out) \<Rightarrow>
                   (yielded @ rest, out))))
      else ([], Exhausted))"

text \<open>
  \<open>VariableBatchSamplerDDP.__iter__\<close>: \<open>indices_rank_i\<close> is what the base class's
  \<open>get_indices_rank_i()\<close> returned.
\<close>

definition iter_ddp :: "'f sampler_ddp \<Rightarrow> int list \<Rightarrow> nat list \<Rightarrow> batch list \<times> outcome" where
  "iter_ddp s indices_rank_i rs = iter_loop_ddp (img_batch_tuples s) indices_rank_i 0 rs"

subsection \<open>\<open>update_scales\<close>\<close>

text \<open>
  \<open>VariableBatchSampler.update_scales\<close>, statement by statement. The result is the
  sampler after the call and the exception raised, if any: \<open>epoch in
  self.scale_ep_intervals\<close> is evaluated first and raises before any field is written;
  each \<open>self.b += int(self.b * f)\<close> reads \<open>b\<close>, converts (which may raise) and only
  then writes \<open>b\<close>, so an exception there leaves the bounds written so far as they
  are and every later field untouched. Logging on the master node writes no field.
\<close>

definition update_scales_dp ::
  "'f env \<Rightarrow> 'f sampler_dp \<Rightarrow> int \<Rightarrow> 'f sampler_dp \<times> error option" where
  "update_scales_dp E s epoch =
     (case py_in epoch (scale_ep_intervals s) of
        Inl e \<Rightarrow> (s, Some e)
      | Inr member \<Rightarrow>
          if member \<and> scale_inc s then
            (case int_of_product E (min_crop_size_w s) (min_scale_inc_factor s) of
               Inl e \<Rightarrow> (s, Some e)
             | Inr i \<Rightarrow>
            (let s = s\<lparr>min_crop_size_w := min_crop_size_w s + i\<rparr> in
             case int_of_product E (max_crop_size_w s) (max_scale_inc_factor s) of
               Inl e \<Rightarrow> (s, Some e)
             | Inr i \<Rightarrow>
            (let s = s\<lparr>max_crop_size_w := max_crop_size_w s + i\<rparr> in
             case int_of_product E (min_crop_size_h s) (min_scale_inc_factor s) of
               Inl e \<Rightarrow> (s, Some e)
             | Inr i \<Rightarrow>
            (let s = s\<lparr>min_crop_size_h := min_crop_size_h s + i\<rparr> in
             case int_of_product E (max_crop_size_h s) (max_scale_inc_factor s) of
               Inl e \<Rightarrow> (s, Some e)
             | Inr i \<Rightarrow>
            (let s = s\<lparr>max_crop_size_h := max_crop_size_h s + i\<rparr>;
                 s = s\<lparr>img_batch_tuples :=
                        image_batch_pairs E (crop_size_h s) (crop_size_w s) (batch_size_gpu0 s)
                          (n_gpus s) (max_img_scales s) (check_scale_div_factor s)
                          (min_crop_size_w s) (max_crop_size_w s)
                          (min_crop_size_h s) (max_crop_size_h s)\<rparr>
             in (s, None))))))
          else (s, None))"

text \<open>
  \<open>VariableBatchSamplerDDP.update_scales\<close>: \<open>num_replicas\<close> is passed as \<open>n_gpus\<close>.
\<close>

definition update_scales_ddp ::
  "'f env \<Rightarrow> 'f sampler_ddp \<Rightarrow> int \<Rightarrow> 'f sampler_ddp \<times> error option" where
  "update_scales_ddp E s epoch =
     (case py_in epoch (scale_ep_intervals s) of
        Inl e \<Rightarrow> (s, Some e)
      | Inr member \<Rightarrow>
          if member \<and> scale_inc s then
            (case int_of_product E (min_crop_size_w s) (min_scale_inc_factor s) of
               Inl e \<Rightarrow> (s, Some e)
             | Inr i \<Rightarrow>
            (let s = s\<lparr>min_crop_size_w := min_crop_size_w s + i\<rparr> in
             case int_of_product E (max_crop_size_w s) (max_scale_inc_factor s) of
               Inl e \<Rightarrow> (s, Some e)
             | Inr i \<Rightarrow>
            (let s = s\<lparr>max_crop_size_w := max_crop_size_w s + i\<rparr> in
             case int_of_product E (min_crop_size_h s) (min_scale_inc_factor s) of
               Inl e \<Rightarrow> (s, Some e)
             | Inr i \<Rightarrow>
            (let s = s\<lparr>min_crop_size_h := min_crop_size_h s + i\<rparr> in
             case int_of_product E (max_crop_size_h s) (max_scale_inc_factor s) of
               Inl e \<Rightarrow> (s, Some e)
             | Inr i \<Rightarrow>
            (let s = s\<lparr>max_crop_size_h := max_crop_size_h s + i\<rparr>;
                 s = s\<lparr>img_batch_tuples :=
                        image_batch_pairs E (crop_size_h s) (crop_size_w s) (batch_size_gpu0 s)
                          (num_replicas s) (max_img_scales s) (check_scale_div_factor s)
                          (min_crop_size_w s) (max_crop_size_w s)
                          (min_crop_size_h s) (max_crop_size_h s)\<rparr>
             in (s, None))))))
          else (s, None))"

section \<open>The ImageNet dataset\<close>

text \<open>
  An image is an array of height, width and channel of \<open>uint8\<close>. The dictionary
  returned by \<open>__getitem__\<close> maps a key to an image or an int.
\<close>

type_synonym image = "8 word list list list"

datatype val = VImage image | VInt int

type_synonym data = "string \<rightharpoonup> val"

text \<open>
  \<open>np.zeros(shape=(h, w, 3), dtype=np.uint8)\<close>, which raises \<open>ValueError\<close> on a
  negative dimension.
\<close>

definition np_zeros :: "int \<Rightarrow> int \<Rightarrow> error + image" where
  "np_zeros h w =
     (if h < 0 \<or> w < 0 then Inl ValueError
      else Inr (replicate (nat h) (replicate (nat w) (replicate 3 0))))"

text \<open>
  The fields of the dataset \<open>__getitem__\<close> reads and writes: \<open>samples\<close> is the list
  of pairs of image path and target.
\<close>

record dataset =
  is_training :: bool
  samples :: "(string \<times> int) list"

text \<open>
  What the dataset gets from the framework: \<open>read_image_opencv\<close> of the base class
  (\<open>None\<close> when the image does not decode), and the callables that
  \<open>_training_transforms\<close> and \<open>_validation_transforms\<close> return for a size. Both are
  compositions of the framework's transform classes (\<open>RandomResizedCrop\<close>, \<open>Resize\<close>,
  \<open>CenterCrop\<close>, \<open>BitPlane\<close>, \<open>NumpyToTensor\<close>, ...), applied to the dictionary
  \<open>{"image": input_img}\<close>; \<open>__getitem__\<close> builds the callable before it reads the
  sample.
\<close>

record dataset_env =
  read_image_opencv :: "string \<Rightarrow> image option"
  training_transforms :: "int \<times> int \<Rightarrow> data \<Rightarrow> data"
  validation_transforms :: "int \<times> int \<Rightarrow> data \<Rightarrow> data"

text \<open>
  The end of \<open>__getitem__\<close>: the transform applied to \<open>{"image": input_img}\<close>, then
  the keys \<open>label\<close> and \<open>sample_id\<close> set.
\<close>

definition make_data :: "(data \<Rightarrow> data) \<Rightarrow> image \<Rightarrow> int \<Rightarrow> int \<Rightarrow> data" where
  "make_data transform_fn input_img target img_index =
     (let data = [''image'' \<mapsto> VImage input_img];
          data = transform_fn data;
          data = data(''label'' \<mapsto> VInt target);
          data = data(''sample_id'' \<mapsto> VInt img_index)
      in data)"

text \<open>
  \<open>ImagenetOpenCVDataset.__getitem__\<close>: what is returned or raised, and the dataset
  after the call. The locals \<open>crop_size_h\<close> and \<open>crop_size_w\<close> are written \<open>size_h\<close>
  and \<open>size_w\<close>, apart from the sampler's fields.
\<close>

definition getitem ::
  "dataset_env \<Rightarrow> dataset \<Rightarrow> int \<times> int \<times> int \<Rightarrow> (error + data) \<times> dataset" where
  "getitem E s batch_indexes_tup =
     (case batch_indexes_tup of (size_h, size_w, img_index) \<Rightarrow>
        let transform_fn =
              (if is_training s then training_transforms E (size_h, size_w)
               else validation_transforms E (size_h, size_w))
        in case py_index (samples s) img_index of
             Inl e \<Rightarrow> (Inl e, s)
           | Inr j \<Rightarrow>
               (case samples s ! j of (img_path, target) \<Rightarrow>
                  (case read_image_opencv E img_path of
                     Some input_img \<Rightarrow>
                       (Inr (make_data transform_fn input_img target img_index), s)
                   | None \<Rightarrow>
                       (let s = s\<lparr>samples := py_del (samples s) j\<rparr>
                        in case np_zeros size_h size_w of
                             Inl e \<Rightarrow> (Inl e, s)
                           | Inr input_img \<Rightarrow>
                               (Inr (make_data transform_fn input_img target img_index), s)))))"

text \<open>\<open>ImagenetOpenCVDataset.__len__\<close>.\<close>

definition len_dataset :: "dataset \<Rightarrow> nat" where
  "len_dataset s = length (samples s)"

section \<open>Example values\<close>

text \<open>
  Floats for the examples: the whole numbers, which a float holds exactly when they are
  small, as all those of the examples are, and \<open>inf\<close>. For a whole \<open>k\<close>,
  \<open>int(b * float(k))\<close> is \<open>b * k\<close>; \<open>b * inf\<close> is infinite for \<open>b \<noteq> 0\<close>, on which
  \<open>int\<close> raises \<open>OverflowError\<close>, and not a number for \<open>b = 0\<close>, on which \<open>int\<close>
  raises \<open>ValueError\<close>.
\<close>

datatype example_float = Whole int | Infinity

fun example_int_of_product :: "int \<Rightarrow> example_float \<Rightarrow> error + int" where
  "example_int_of_product b (Whole k) = Inr (b * k)"
| "example_int_of_product b Infinity = (if b = 0 then Inl ValueError else Inl OverflowError)"

text \<open>
  An instance of the parameters, for evaluating the model on concrete inputs: the floats
  above, and for \<open>_image_batch_pairs\<close> a function that returns the minimum, the base and
  the maximum crop size, each with the base batch size.
\<close>

definition example_env :: "example_float env" where
  "example_env =
     \<lparr> DEFAULT_IMAGE_WIDTH = 256, DEFAULT_IMAGE_HEIGHT = 256,
       image_batch_pairs =
         (\<lambda>h w b g ms c min_w max_w min_h max_h. [(min_h, min_w, b), (h, w, b), (max_h, max_w, b)]),
       float_one = Whole 1,
       int_of_product = example_int_of_product \<rparr>"

text \<open>Options with \<open>sampler.vbs.scale_inc\<close> set and every other attribute left out.\<close>

definition example_opts :: "example_float opts" where
  "example_opts =
     \<lparr> opt_crop_size_width = None, opt_crop_size_height = None,
       opt_min_crop_size_width = None, opt_max_crop_size_width = None,
       opt_min_crop_size_height = None, opt_max_crop_size_height = None,
       opt_scale_inc = Some True, opt_ep_intervals = None,
       opt_min_scale_inc_factor = None, opt_max_scale_inc_factor = None,
       opt_check_scale = None, opt_max_n_scales = None \<rparr>"

definition example_dp :: "example_float sampler_dp" where
  "example_dp = init_dp example_env example_opts 4 2 True"

definition example_ddp :: "example_float sampler_ddp" where
  "example_ddp = init_ddp example_env example_opts 4 2 True"

text \<open>The same samplers with \<open>sampler.vbs.max_scale_inc_factor\<close> set to \<open>inf\<close>.\<close>

definition example_dp_inf :: "example_float sampler_dp" where
  "example_dp_inf =
     init_dp example_env (example_opts\<lparr>opt_max_scale_inc_factor := Some Infinity\<rparr>) 4 2 True"

definition example_ddp_inf :: "example_float sampler_ddp" where
  "example_ddp_inf =
     init_ddp example_env (example_opts\<lparr>opt_max_scale_inc_factor := Some Infinity\<rparr>) 4 2 True"



text \<open>
  A dataset of three samples whose second image does not decode; the transforms leave the
  dictionary as it is.
\<close>

definition example_dataset_env :: dataset_env where
  "example_dataset_env =
     \<lparr> read_image_opencv = (\<lambda>p. if p = ''b.jpg'' then None else Some [[[1, 2, 3]]]),
       training_transforms = (\<lambda>size d. d),
       validation_transforms = (\<lambda>size d. d) \<rparr>"

definition example_dataset :: dataset where
  "example_dataset =
     \<lparr> is_training = True, samples = [(''a.jpg'', 0), (''b.jpg'', 7), (''c.jpg'', 2)] \<rparr>"

section \<open>Notions used in the statements\<close>

text \<open>The sample ids that occur in a list of batches.\<close>

definition ids_of :: "batch list \<Rightarrow> int set" where
  "ids_of bs = (\<Union>B \<in> set bs. (snd \<circ> snd) ` set B)"

text \<open>
  The batch the sampler is to yield for a chosen tuple at a start position: the
  contiguous slice of \<open>batch_size\<close> indices of the index list that starts at \<open>start\<close>,
  followed, where the list ends before the slice is full, by as many indices from the
  front of the list as are missing; every index is paired with the tuple's crop size.
\<close>

definition batch_at :: "int list \<Rightarrow> int \<Rightarrow> img_batch_tuple \<Rightarrow> batch" where
  "batch_at idx start t =
     (case t of (crop_h, crop_w, batch_size) \<Rightarrow>
        map (\<lambda>b_id. (crop_h, crop_w, b_id))
          (take (nat batch_size) (drop (nat start) idx)
           @ take (nat (start + batch_size) - length idx) idx))"

text \<open>
  Where the slice of the \<open>k\<close>-th batch starts when the tuples \<open>picks\<close> were chosen for
  the batches in order: where the slice of the batch before it ended, that is the sum
  of the batch sizes of the first \<open>k\<close> tuples.
\<close>

definition start_at :: "img_batch_tuple list \<Rightarrow> nat \<Rightarrow> int" where
  "start_at picks k = sum_list (map (snd \<circ> snd) (take k picks))"

section \<open>Properties of \<open>update_scales\<close>\<close>

lemma update_scales_dp_idle:
  "\<not> (py_in epoch (scale_ep_intervals s) = Inr True \<and> scale_inc s)
     \<Longrightarrow> fst (update_scales_dp E s epoch) = s"
  by (auto simp: update_scales_dp_def split: sum.splits)

lemma update_scales_ddp_idle:
  "\<not> (py_in epoch (scale_ep_intervals d) = Inr True \<and> scale_inc d)
     \<Longrightarrow> fst (update_scales_ddp E d epoch) = d"
  by (auto simp: update_scales_ddp_def split: sum.splits)

lemma example_dp_fields:
  "scale_ep_intervals example_dp = EpList [40]" "scale_inc example_dp"
  "min_crop_size_w example_dp = 160" "max_crop_size_w example_dp = 320"
  "min_crop_size_h example_dp = 160" "max_crop_size_h example_dp = 320"
  "crop_size_w example_dp = 256" "crop_size_h example_dp = 256"
  "min_scale_inc_factor example_dp = Whole 1" "max_scale_inc_factor example_dp = Whole 1"
  "batch_size_gpu0 example_dp = 4" "n_gpus example_dp = 2"
  "max_img_scales example_dp = 10" "check_scale_div_factor example_dp = 32"
  "img_batch_tuples example_dp = [(160, 160, 4), (256, 256, 4), (320, 320, 4)]"
  by (simp_all add: example_dp_def init_dp_def example_env_def example_opts_def getattr_def)

lemma example_ddp_fields:
  "scale_ep_intervals example_ddp = EpList [40]" "scale_inc example_ddp"
  "min_crop_size_w example_ddp = 160" "max_crop_size_w example_ddp = 320"
  "min_crop_size_h example_ddp = 160" "max_crop_size_h example_ddp = 320"
  "crop_size_w example_ddp = 256" "crop_size_h example_ddp = 256"
  "min_scale_inc_factor example_ddp = Whole 1" "max_scale_inc_factor example_ddp = Whole 1"
  "batch_size_gpu0 example_ddp = 4" "num_replicas example_ddp = 2"
  "max_img_scales example_ddp = 10" "check_scale_div_factor example_ddp = 32"
  "img_batch_tuples example_ddp = [(160, 160, 4), (256, 256, 4), (320, 320, 4)]"
  by (simp_all add: example_ddp_def init_ddp_def example_env_def example_opts_def getattr_def)

lemma example_dp_inf_fields:
  "scale_ep_intervals example_dp_inf = EpList [40]" "scale_inc example_dp_inf"
  "min_crop_size_w example_dp_inf = 160" "max_crop_size_w example_dp_inf = 320"
  "min_crop_size_h example_dp_inf = 160" "max_crop_size_h example_dp_inf = 320"
  "min_scale_inc_factor example_dp_inf = Whole 1"
  "max_scale_inc_factor example_dp_inf = Infinity"
  "img_batch_tuples example_dp_inf = [(160, 160, 4), (256, 256, 4), (320, 320, 4)]"
  by (simp_all add: example_dp_inf_def init_dp_def example_env_def example_opts_def getattr_def)

lemma example_ddp_inf_fields:
  "scale_ep_intervals example_ddp_inf = EpList [40]" "scale_inc example_ddp_inf"
  "min_crop_size_w example_ddp_inf = 160" "max_crop_size_w example_ddp_inf = 320"
  "min_crop_size_h example_ddp_inf = 160" "max_crop_size_h example_ddp_inf = 320"
  "min_scale_inc_factor example_ddp_inf = Whole 1"
  "max_scale_inc_factor example_ddp_inf = Infinity"
  "img_batch_tuples example_ddp_inf = [(160, 160, 4), (256, 256, 4), (320, 320, 4)]"
  by (simp_all add: example_ddp_inf_def init_ddp_def example_env_def example_opts_def getattr_def)

lemma example_env_fields:
  "int_of_product example_env = example_int_of_product"
  "image_batch_pairs example_env h w b g ms c min_w max_w min_h max_h =
     [(min_h, min_w, b), (h, w, b), (max_h, max_w, b)]"
  by (simp_all add: example_env_def)

text \<open>
  C3. \<open>update_scales(epoch)\<close> leaves the sampler as it is, field by field, unless
  \<open>epoch in scale_ep_intervals\<close> holds and \<open>scale_inc\<close> is set: the sampler after the
  call is the sampler before it, for \<open>VariableBatchSampler\<close> and for
  \<open>VariableBatchSamplerDDP\<close>. (Where \<open>epoch in scale_ep_intervals\<close> raises, nothing was
  written either.)
\<close>

theorem update_scales_frame:
  "(\<not> (py_in epoch (scale_ep_intervals s) = Inr True \<and> scale_inc s)
      \<longrightarrow> fst (update_scales_dp E s epoch) = s)
   \<and> (\<not> (py_in epoch (scale_ep_intervals d) = Inr True \<and> scale_inc d)
      \<longrightarrow> fst (update_scales_ddp E d epoch) = d)"
  using update_scales_dp_idle update_scales_ddp_idle by blast

theorem update_scales_frame_witness:
  "\<not> (py_in 7 (scale_ep_intervals example_dp) = Inr True \<and> scale_inc example_dp)
   \<and> fst (update_scales_dp example_env example_dp 7) = example_dp
   \<and> \<not> (py_in 7 (scale_ep_intervals example_ddp) = Inr True \<and> scale_inc example_ddp)
   \<and> fst (update_scales_ddp example_env example_ddp 7) = example_ddp"
  using update_scales_frame [of 7 example_dp example_env example_ddp]
  by (simp add: example_dp_fields example_ddp_fields)

lemma update_scales_dp_fires:
  assumes "py_in epoch (scale_ep_intervals s) = Inr True" and "scale_inc s"
      and "int_of_product E (min_crop_size_w s) (min_scale_inc_factor s) = Inr i1"
      and "int_of_product E (max_crop_size_w s) (max_scale_inc_factor s) = Inr i2"
      and "int_of_product E (min_crop_size_h s) (min_scale_inc_factor s) = Inr i3"
      and "int_of_product E (max_crop_size_h s) (max_scale_inc_factor s) = Inr i4"
  shows "update_scales_dp E s epoch =
     (s\<lparr>min_crop_size_w := min_crop_size_w s + i1,
        max_crop_size_w := max_crop_size_w s + i2,
        min_crop_size_h := min_crop_size_h s + i3,
        max_crop_size_h := max_crop_size_h s + i4,
        img_batch_tuples :=
          image_batch_pairs E (crop_size_h s) (crop_size_w s) (batch_size_gpu0 s)
            (n_gpus s) (max_img_scales s) (check_scale_div_factor s)
            (min_crop_size_w s + i1) (max_crop_size_w s + i2)
            (min_crop_size_h s + i3) (max_crop_size_h s + i4)\<rparr>,
      None)"
  using assms by (simp add: update_scales_dp_def Let_def)

lemma update_scales_ddp_fires:
  assumes "py_in epoch (scale_ep_intervals d) = Inr True" and "scale_inc d"
      and "int_of_product E (min_crop_size_w d) (min_scale_inc_factor d) = Inr i1"
      and "int_of_product E (max_crop_size_w d) (max_scale_inc_factor d) = Inr i2"
      and "int_of_product E (min_crop_size_h d) (min_scale_inc_factor d) = Inr i3"
      and "int_of_product E (max_crop_size_h d) (max_scale_inc_factor d) = Inr i4"
  shows "update_scales_ddp E d epoch =
     (d\<lparr>min_crop_size_w := min_crop_size_w d + i1,
        max_crop_size_w := max_crop_size_w d + i2,
        min_crop_size_h := min_crop_size_h d + i3,
        max_crop_size_h := max_crop_size_h d + i4,
        img_batch_tuples :=
          image_batch_pairs E (crop_size_h d) (crop_size_w d) (batch_size_gpu0 d)
            (num_replicas d) (max_img_scales d) (check_scale_div_factor d)
            (min_crop_size_w d + i1) (max_crop_size_w d + i2)
            (min_crop_size_h d + i3) (max_crop_size_h d + i4)\<rparr>,
      None)"
  using assms by (simp add: update_scales_ddp_def Let_def)

text \<open>
  C4, as the code has it. When \<open>update_scales(epoch)\<close> fires (\<open>epoch in
  scale_ep_intervals\<close> and \<open>scale_inc\<close> set) and none of the four conversions
  \<open>int(b * f)\<close> raises, \<open>i1\<close>, \<open>i2\<close>, \<open>i3\<close>, \<open>i4\<close> being their values on the bounds before
  the call, the call raises nothing and, in terms of the sampler \<open>s\<close> before the call and
  the sampler \<open>s'\<close> after it: each of the four crop bounds \<open>b\<close> has become
  \<open>b + int(b * f)\<close>, with \<open>f = min_scale_inc_factor\<close> for the two minimum bounds and
  \<open>f = max_scale_inc_factor\<close> for the two maximum bounds; \<open>img_batch_tuples\<close> is what
  \<open>_image_batch_pairs\<close> returns for the unchanged \<open>crop_size_h\<close>, \<open>crop_size_w\<close>,
  \<open>batch_size_gpu0\<close> (and device count, \<open>max_img_scales\<close>, \<open>check_scale_div_factor\<close>) and
  the four updated bounds; and \<open>crop_size_h\<close>, \<open>crop_size_w\<close>, \<open>batch_size_gpu0\<close> are as
  before. The first conjunct is \<open>VariableBatchSampler\<close>, the second
  \<open>VariableBatchSamplerDDP\<close>.
\<close>

theorem update_scales_rule:
  "(py_in epoch (scale_ep_intervals s) = Inr True \<and> scale_inc s
    \<and> int_of_product E (min_crop_size_w s) (min_scale_inc_factor s) = Inr i1
    \<and> int_of_product E (max_crop_size_w s) (max_scale_inc_factor s) = Inr i2
    \<and> int_of_product E (min_crop_size_h s) (min_scale_inc_factor s) = Inr i3
    \<and> int_of_product E (max_crop_size_h s) (max_scale_inc_factor s) = Inr i4 \<longrightarrow>
      (let s' = fst (update_scales_dp E s epoch) in
         snd (update_scales_dp E s epoch) = None
       \<and> min_crop_size_w s' = min_crop_size_w s + i1
       \<and> max_crop_size_w s' = max_crop_size_w s + i2
       \<and> min_crop_size_h s' = min_crop_size_h s + i3
       \<and> max_crop_size_h s' = max_crop_size_h s + i4
       \<and> img_batch_tuples s' =
            image_batch_pairs E (crop_size_h s) (crop_size_w s) (batch_size_gpu0 s)
              (n_gpus s) (max_img_scales s) (check_scale_div_factor s)
              (min_crop_size_w s') (max_crop_size_w s') (min_crop_size_h s') (max_crop_size_h s')
       \<and> crop_size_h s' = crop_size_h s \<and> crop_size_w s' = crop_size_w s
       \<and> batch_size_gpu0 s' = batch_size_gpu0 s))
   \<and> (py_in epoch (scale_ep_intervals d) = Inr True \<and> scale_inc d
    \<and> int_of_product E (min_crop_size_w d) (min_scale_inc_factor d) = Inr j1
    \<and> int_of_product E (max_crop_size_w d) (max_scale_inc_factor d) = Inr j2
    \<and> int_of_product E (min_crop_size_h d) (min_scale_inc_factor d) = Inr j3
    \<and> int_of_product E (max_crop_size_h d) (max_scale_inc_factor d) = Inr j4 \<longrightarrow>
      (let d' = fst (update_scales_ddp E d epoch) in
         snd (update_scales_ddp E d epoch) = None
       \<and> min_crop_size_w d' = min_crop_size_w d + j1
       \<and> max_crop_size_w d' = max_crop_size_w d + j2
       \<and> min_crop_size_h d' = min_crop_size_h d + j3
       \<and> max_crop_size_h d' = max_crop_size_h d + j4
       \<and> img_batch_tuples d' =
            image_batch_pairs E (crop_size_h d) (crop_size_w d) (batch_size_gpu0 d)
              (num_replicas d) (max_img_scales d) (check_scale_div_factor d)
              (min_crop_size_w d') (max_crop_size_w d') (min_crop_size_h d') (max_crop_size_h d')
       \<and> crop_size_h d' = crop_size_h d \<and> crop_size_w d' = crop_size_w d
       \<and> batch_size_gpu0 d' = batch_size_gpu0 d))"
proof (intro conjI impI)
  assume a: "py_in epoch (scale_ep_intervals s) = Inr True \<and> scale_inc s
    \<and> int_of_product E (min_crop_size_w s) (min_scale_inc_factor s) = Inr i1
    \<and> int_of_product E (max_crop_size_w s) (max_scale_inc_factor s) = Inr i2
    \<and> int_of_product E (min_crop_size_h s) (min_scale_inc_factor s) = Inr i3
    \<and> int_of_product E (max_crop_size_h s) (max_scale_inc_factor s) = Inr i4"
  then have eq: "update_scales_dp E s epoch =
     (s\<lparr>min_crop_size_w := min_crop_size_w s + i1,
        max_crop_size_w := max_crop_size_w s + i2,
        min_crop_size_h := min_crop_size_h s + i3,
        max_crop_size_h := max_crop_size_h s + i4,
        img_batch_tuples :=
          image_batch_pairs E (crop_size_h s) (crop_size_w s) (batch_size_gpu0 s)
            (n_gpus s) (max_img_scales s) (check_scale_div_factor s)
            (min_crop_size_w s + i1) (max_crop_size_w s + i2)
            (min_crop_size_h s + i3) (max_crop_size_h s + i4)\<rparr>,
      None)"
    by (intro update_scales_dp_fires) simp_all
  show "let s' = fst (update_scales_dp E s epoch) in
         snd (update_scales_dp E s epoch) = None
       \<and> min_crop_size_w s' = min_crop_size_w s + i1
       \<and> max_crop_size_w s' = max_crop_size_w s + i2
       \<and> min_crop_size_h s' = min_crop_size_h s + i3
       \<and> max_crop_size_h s' = max_crop_size_h s + i4
       \<and> img_batch_tuples s' =
            image_batch_pairs E (crop_size_h s) (crop_size_w s) (batch_size_gpu0 s)
              (n_gpus s) (max_img_scales s) (check_scale_div_factor s)
              (min_crop_size_w s') (max_crop_size_w s') (min_crop_size_h s') (max_crop_size_h s')
       \<and> crop_size_h s' = crop_size_h s \<and> crop_size_w s' = crop_size_w s
       \<and> batch_size_gpu0 s' = batch_size_gpu0 s"
    unfolding eq by (simp add: Let_def)
next
  assume a: "py_in epoch (scale_ep_intervals d) = Inr True \<and> scale_inc d
    \<and> int_of_product E (min_crop_size_w d) (min_scale_inc_factor d) = Inr j1
    \<and> int_of_product E (max_crop_size_w d) (max_scale_inc_factor d) = Inr j2
    \<and> int_of_product E (min_crop_size_h d) (min_scale_inc_factor d) = Inr j3
    \<and> int_of_product E (max_crop_size_h d) (max_scale_inc_factor d) = Inr j4"
  then have eq: "update_scales_ddp E d epoch =
     (d\<lparr>min_crop_size_w := min_crop_size_w d + j1,
        max_crop_size_w := max_crop_size_w d + j2,
        min_crop_size_h := min_crop_size_h d + j3,
        max_crop_size_h := max_crop_size_h d + j4,
        img_batch_tuples :=
          image_batch_pairs E (crop_size_h d) (crop_size_w d) (batch_size_gpu0 d)
            (num_replicas d) (max_img_scales d) (check_scale_div_factor d)
            (min_crop_size_w d + j1) (max_crop_size_w d + j2)
            (min_crop_size_h d + j3) (max_crop_size_h d + j4)\<rparr>,
      None)"
    by (intro update_scales_ddp_fires) simp_all
  show "let d' = fst (update_scales_ddp E d epoch) in
         snd (update_scales_ddp E d epoch) = None
       \<and> min_crop_size_w d' = min_crop_size_w d + j1
       \<and> max_crop_size_w d' = max_crop_size_w d + j2
       \<and> min_crop_size_h d' = min_crop_size_h d + j3
       \<and> max_crop_size_h d' = max_crop_size_h d + j4
       \<and> img_batch_tuples d' =
            image_batch_pairs E (crop_size_h d) (crop_size_w d) (batch_size_gpu0 d)
              (num_replicas d) (max_img_scales d) (check_scale_div_factor d)
              (min_crop_size_w d') (max_crop_size_w d') (min_crop_size_h d') (max_crop_size_h d')
       \<and> crop_size_h d' = crop_size_h d \<and> crop_size_w d' = crop_size_w d
       \<and> batch_size_gpu0 d' = batch_size_gpu0 d"
    unfolding eq by (simp add: Let_def)
qed

theorem update_scales_rule_witness:
  "py_in 40 (scale_ep_intervals example_dp) = Inr True \<and> scale_inc example_dp
   \<and> int_of_product example_env (min_crop_size_w example_dp) (min_scale_inc_factor example_dp)
       = Inr 160
   \<and> int_of_product example_env (max_crop_size_w example_dp) (max_scale_inc_factor example_dp)
       = Inr 320
   \<and> snd (update_scales_dp example_env example_dp 40) = None
   \<and> min_crop_size_w (fst (update_scales_dp example_env example_dp 40)) = 320
   \<and> max_crop_size_w (fst (update_scales_dp example_env example_dp 40)) = 640
   \<and> min_crop_size_h (fst (update_scales_dp example_env example_dp 40)) = 320
   \<and> max_crop_size_h (fst (update_scales_dp example_env example_dp 40)) = 640
   \<and> img_batch_tuples (fst (update_scales_dp example_env example_dp 40)) =
        [(320, 320, 4), (256, 256, 4), (640, 640, 4)]
   \<and> py_in 40 (scale_ep_intervals example_ddp) = Inr True \<and> scale_inc example_ddp
   \<and> snd (update_scales_ddp example_env example_ddp 40) = None
   \<and> min_crop_size_w (fst (update_scales_ddp example_env example_ddp 40)) = 320
   \<and> max_crop_size_w (fst (update_scales_ddp example_env example_ddp 40)) = 640
   \<and> min_crop_size_h (fst (update_scales_ddp example_env example_ddp 40)) = 320
   \<and> max_crop_size_h (fst (update_scales_ddp example_env example_ddp 40)) = 640
   \<and> img_batch_tuples (fst (update_scales_ddp example_env example_ddp 40)) =
        [(320, 320, 4), (256, 256, 4), (640, 640, 4)]"
  using update_scales_rule
          [of 40 example_dp example_env 160 320 160 320 example_ddp 160 320 160 320]
  by (simp add: example_dp_fields example_ddp_fields example_env_fields Let_def)

text \<open>
  C4, as it is stated, fails: with \<open>max_scale_inc_factor\<close> infinite, \<open>update_scales(40)\<close>
  fires on the example sampler, writes \<open>min_crop_size_w\<close> and then raises
  \<open>OverflowError\<close> in \<open>int(self.max_crop_size_w * self.max_scale_inc_factor)\<close>: the
  other three bounds are not adjusted and \<open>img_batch_tuples\<close> is not recomputed.
\<close>

theorem update_scales_raises_on_infinite_factor:
  "py_in 40 (scale_ep_intervals example_dp_inf) = Inr True \<and> scale_inc example_dp_inf
   \<and> max_scale_inc_factor example_dp_inf = Infinity
   \<and> snd (update_scales_dp example_env example_dp_inf 40) = Some OverflowError
   \<and> min_crop_size_w (fst (update_scales_dp example_env example_dp_inf 40)) = 320
   \<and> max_crop_size_w (fst (update_scales_dp example_env example_dp_inf 40)) = 320
   \<and> min_crop_size_h (fst (update_scales_dp example_env example_dp_inf 40)) = 160
   \<and> max_crop_size_h (fst (update_scales_dp example_env example_dp_inf 40)) = 320
   \<and> img_batch_tuples (fst (update_scales_dp example_env example_dp_inf 40)) =
        [(160, 160, 4), (256, 256, 4), (320, 320, 4)]
   \<and> snd (update_scales_ddp example_env example_ddp_inf 40) = Some OverflowError
   \<and> min_crop_size_w (fst (update_scales_ddp example_env example_ddp_inf 40)) = 320
   \<and> max_crop_size_w (fst (update_scales_ddp example_env example_ddp_inf 40)) = 320
   \<and> min_crop_size_h (fst (update_scales_ddp example_env example_ddp_inf 40)) = 160
   \<and> max_crop_size_h (fst (update_scales_ddp example_env example_ddp_inf 40)) = 320
   \<and> img_batch_tuples (fst (update_scales_ddp example_env example_ddp_inf 40)) =
        [(160, 160, 4), (256, 256, 4), (320, 320, 4)]"
  by (simp add: update_scales_dp_def update_scales_ddp_def example_dp_inf_fields
        example_ddp_inf_fields example_env_fields Let_def)

section \<open>The two sampler classes\<close>

lemma iter_body_ddp_eq: "iter_body_ddp idx start t = iter_body_dp idx start t"
  by (simp add: iter_body_ddp_def iter_body_dp_def Let_def split: prod.splits)

lemma iter_loop_ddp_eq: "iter_loop_ddp ts idx start rs = iter_loop_dp ts idx start rs"
  by (induction rs arbitrary: start) (simp_all add: iter_body_ddp_eq split: sum.splits prod.splits)

lemma update_scales_same:
  "sampler.truncate s = sampler.truncate d \<Longrightarrow> n_gpus s = num_replicas d \<Longrightarrow>
     sampler.truncate (fst (update_scales_dp E s epoch))
       = sampler.truncate (fst (update_scales_ddp E d epoch))
     \<and> snd (update_scales_dp E s epoch) = snd (update_scales_ddp E d epoch)"
  by (auto simp: update_scales_dp_def update_scales_ddp_def sampler.truncate_def Let_def
           split: sum.splits)

text \<open>
  C9. \<open>VariableBatchSampler\<close> and \<open>VariableBatchSamplerDDP\<close> implement the same batching
  algorithm. For the same \<open>img_batch_tuples\<close>, the same index list and the same random
  draws, the two \<open>__iter__\<close> methods yield the same sequence of batches and end the same
  way. For samplers that agree on every common field (\<open>sampler.truncate\<close> keeps exactly
  those) and on the device count (\<open>n_gpus\<close> of the one, \<open>num_replicas\<close> of the other, both
  passed to \<open>_image_batch_pairs\<close> as \<open>n_gpus\<close>), \<open>update_scales\<close> at the same epoch leaves
  them agreeing on every common field, the four crop bounds and \<open>img_batch_tuples\<close>
  among them, and raises in the one exactly when it raises in the other.
\<close>

theorem dp_ddp_same_algorithm:
  "(img_batch_tuples s = img_batch_tuples d \<longrightarrow> iter_ddp d idx rs = iter_dp s idx rs)
   \<and> (sampler.truncate s = sampler.truncate d \<and> n_gpus s = num_replicas d \<longrightarrow>
        sampler.truncate (fst (update_scales_dp E s epoch))
          = sampler.truncate (fst (update_scales_ddp E d epoch))
        \<and> snd (update_scales_dp E s epoch) = snd (update_scales_ddp E d epoch))"
  using update_scales_same [of s d E epoch]
  by (simp add: iter_dp_def iter_ddp_def iter_loop_ddp_eq)

theorem dp_ddp_same_algorithm_witness:
  "img_batch_tuples example_dp = img_batch_tuples example_ddp
   \<and> iter_ddp example_ddp [10, 11, 12, 13, 14] [1, 0] = iter_dp example_dp [10, 11, 12, 13, 14] [1, 0]
   \<and> sampler.truncate example_dp = sampler.truncate example_ddp
   \<and> n_gpus example_dp = num_replicas example_ddp
   \<and> sampler.truncate (fst (update_scales_dp example_env example_dp 40))
        = sampler.truncate (fst (update_scales_ddp example_env example_ddp 40))
   \<and> snd (update_scales_dp example_env example_dp 40)
        = snd (update_scales_ddp example_env example_ddp 40)"
  using dp_ddp_same_algorithm
          [of example_dp example_ddp "[10, 11, 12, 13, 14]" "[1, 0]" example_env 40]
  by (simp add: example_dp_fields example_ddp_fields sampler.truncate_def)

section \<open>Properties of \<open>__iter__\<close>\<close>

lemma random_choice_mem: "random_choice r ts = Inr t \<Longrightarrow> t \<in> set ts"
  by (auto simp: random_choice_def split: if_splits)

lemma fst_iter_body_dp [simp]: "fst (iter_body_dp idx s (h, w, b)) = s + b"
  by (simp add: iter_body_dp_def Let_def)

text \<open>
  One turn of the loop for a batch size that is not negative, from a start position
  inside the list.
\<close>

lemma iter_body_dp_nonneg:
  assumes "0 \<le> s" "s < int (length idx)" "0 \<le> b"
  shows "iter_body_dp idx s (h, w, b) =
           (s + b, if b = 0 then [] else [batch_at idx s (h, w, b)])"
proof (cases "s + b \<le> int (length idx)")
  case True
  with assms
  have sl: "py_slice idx s (min (s + b) (int (length idx))) = take (nat b) (drop (nat s) idx)"
    by (simp add: py_slice_def py_bound_def Let_def min_def)
  from True assms have len: "int (length (take (nat b) (drop (nat s) idx))) = b" by simp
  from True have z: "nat (s + b) - length idx = 0" by simp
  show ?thesis
    unfolding iter_body_dp_def batch_at_def Let_def prod.case sl len z using assms by auto
next
  case False
  with assms
  have sl: "py_slice idx s (min (s + b) (int (length idx))) = take (nat b) (drop (nat s) idx)"
    by (simp add: py_slice_def py_bound_def Let_def min_def)
  from False assms
  have len: "int (length (take (nat b) (drop (nat s) idx))) = int (length idx) - s" by auto
  from False assms
  have pad: "py_slice idx 0 (b - (int (length idx) - s)) = take (nat (s + b) - length idx) idx"
    by (auto simp: py_slice_def py_bound_def Let_def min_def nat_diff_distrib'
             intro!: arg_cong2[where f=take])
  show ?thesis
    unfolding iter_body_dp_def batch_at_def Let_def prod.case sl len pad
    using assms False by auto
qed

lemma start_at_simps [simp]:
  "start_at picks 0 = 0"
  "start_at ((h, w, b) # picks) (Suc k) = b + start_at picks k"
  by (simp_all add: start_at_def)

text \<open>
  The batches the loop yields from a start position that is not negative, for batch
  sizes that are not negative: a tuple with a positive batch size for each batch, the
  batch being the one of \<open>batch_at\<close> at the start position reached.
\<close>

lemma iter_loop_dp_batches:
  assumes nn: "\<forall>(h, w, b) \<in> set ts. 0 \<le> b"
  shows "0 \<le> s0 \<Longrightarrow>
     \<exists>picks. length picks = length (fst (iter_loop_dp ts idx s0 rs))
       \<and> (\<forall>k < length picks.
             picks ! k \<in> set ts \<and> 0 < snd (snd (picks ! k))
           \<and> s0 + start_at picks k < int (length idx)
           \<and> fst (iter_loop_dp ts idx s0 rs) ! k = batch_at idx (s0 + start_at picks k) (picks ! k))"
proof (induction rs arbitrary: s0)
  case Nil
  then show ?case by simp
next
  case (Cons r rs)
  show ?case
  proof (cases "s0 < int (length idx)")
    case False
    then show ?thesis by simp
  next
    case True
    show ?thesis
    proof (cases "random_choice r ts")
      case (Inl e)
      with True show ?thesis by simp
    next
      case (Inr t)
      obtain h w b where t: "t = (h, w, b)" by (cases t)
      from Inr t have mem: "(h, w, b) \<in> set ts" by (simp add: random_choice_mem)
      with nn have b0: "0 \<le> b" by auto
      obtain rest out where rec: "iter_loop_dp ts idx (s0 + b) rs = (rest, out)" by fastforce
      from b0 Cons.prems have "0 \<le> s0 + b" by simp
      from Cons.IH [OF this] rec obtain picks where
        len: "length picks = length rest" and
        ih: "\<And>k. k < length picks \<Longrightarrow>
               picks ! k \<in> set ts \<and> 0 < snd (snd (picks ! k))
             \<and> s0 + b + start_at picks k < int (length idx)
             \<and> rest ! k = batch_at idx (s0 + b + start_at picks k) (picks ! k)"
        by auto
      show ?thesis
      proof (cases "b = 0")
        case True
        with \<open>s0 < int (length idx)\<close> Inr t rec Cons.prems
        have "fst (iter_loop_dp ts idx s0 (r # rs)) = rest"
          by (simp add: iter_body_dp_nonneg)
        with len ih True show ?thesis by auto
      next
        case False
        with True Inr t rec Cons.prems b0
        have unf: "fst (iter_loop_dp ts idx s0 (r # rs)) = batch_at idx s0 (h, w, b) # rest"
          by (simp add: iter_body_dp_nonneg)
        have "\<forall>k < length ((h, w, b) # picks).
                ((h, w, b) # picks) ! k \<in> set ts \<and> 0 < snd (snd (((h, w, b) # picks) ! k))
              \<and> s0 + start_at ((h, w, b) # picks) k < int (length idx)
              \<and> (batch_at idx s0 (h, w, b) # rest) ! k
                  = batch_at idx (s0 + start_at ((h, w, b) # picks) k) (((h, w, b) # picks) ! k)"
        proof (intro allI impI)
          fix k assume k: "k < length ((h, w, b) # picks)"
          show "((h, w, b) # picks) ! k \<in> set ts \<and> 0 < snd (snd (((h, w, b) # picks) ! k))
              \<and> s0 + start_at ((h, w, b) # picks) k < int (length idx)
              \<and> (batch_at idx s0 (h, w, b) # rest) ! k
                  = batch_at idx (s0 + start_at ((h, w, b) # picks) k) (((h, w, b) # picks) ! k)"
          proof (cases k)
            case 0
            with mem b0 False True show ?thesis by simp
          next
            case (Suc j)
            with k have "j < length picks" by simp
            from ih [OF this] Suc show ?thesis by (simp add: add.assoc)
          qed
        qed
        with len unf show ?thesis
          by (intro exI [of _ "(h, w, b) # picks"]) simp
      qed
    qed
  qed
qed

lemma length_batch_at:
  assumes "0 \<le> b" "b \<le> int (length idx)" "0 \<le> s" "s < int (length idx)"
  shows "int (length (batch_at idx s (h, w, b))) = b"
  using assms by (auto simp: batch_at_def min_def)

lemma ids_of_simps [simp]:
  "ids_of [] = {}" "ids_of (xs @ ys) = ids_of xs \<union> ids_of ys"
  by (auto simp: ids_of_def)

lemma ids_of_iter_body_dp:
  "ids_of (snd (iter_body_dp idx s (h, w, b))) =
     (let sl = py_slice idx s (min (s + b) (int (length idx)))
      in set sl \<union> (if int (length sl) \<noteq> b
                     then set (py_slice idx 0 (b - int (length sl))) else {}))"
  by (auto simp: iter_body_dp_def ids_of_def Let_def image_image comp_def)

text \<open>
  One turn of the loop, for any start position below the length of the list and any
  batch size: the indices before the new start position are among those before the old
  one and those of the batch yielded.
\<close>

lemma iter_body_dp_cover:
  assumes "s < int (length idx)"
  shows "set (take (nat (s + b)) idx)
           \<subseteq> set (take (nat s) idx) \<union> ids_of (snd (iter_body_dp idx s (h, w, b)))"
proof -
  consider (bwd) "b < 0" | (fwd) "0 \<le> b" "0 \<le> s" | (neg) "0 \<le> b" "s < 0" by linarith
  then show ?thesis
  proof cases
    case bwd
    then have "nat (s + b) \<le> nat s" by simp
    then show ?thesis using set_take_subset_set_take by fast
  next
    case fwd
    have "take (nat (s + b)) idx = take (nat s) idx @ take (nat b) (drop (nat s) idx)"
      using fwd by (simp add: nat_add_distrib take_add)
    then show ?thesis using fwd assms
      by (auto simp: iter_body_dp_nonneg batch_at_def ids_of_def image_Un image_image)
  next
    case neg
    define n where "n = int (length idx)"
    define e where "e = min (s + b) n"
    define sl where "sl = py_slice idx s e"
    define nb where "nb = int (length sl)"
    show ?thesis
    proof (cases "s + b \<le> 0")
      case True
      then show ?thesis by simp
    next
      case False
      have lo: "py_bound n s = max (s + n) 0" using neg by (simp add: py_bound_def)
      have e0: "0 \<le> e" using False by (simp add: e_def n_def)
      have en: "e \<le> n" by (simp add: e_def)
      with e0 have hi: "py_bound n e = e" by (simp add: py_bound_def)
      have "sl = take (nat (e - max (s + n) 0)) (drop (nat (max (s + n) 0)) idx)"
        unfolding sl_def py_slice_def Let_def n_def[symmetric] lo hi ..
      then have "length sl \<le> nat (e - max (s + n) 0)" by simp
      then have nb_le: "nb \<le> max 0 (e - max (s + n) 0)"
        unfolding nb_def by linarith
      have es: "e \<le> s + b" by (simp add: e_def)
      with en have diff: "e \<le> b - nb"
        using nb_le neg False by (auto simp: max_def split: if_splits)
      have "nb \<noteq> b"
        using nb_le False neg es by (auto simp: max_def split: if_splits)
      moreover have "0 \<le> b - nb" using diff e0 by simp
      then have "py_slice idx 0 (b - nb) = take (nat (min (b - nb) n)) idx"
        by (simp add: py_slice_def py_bound_def Let_def n_def)
      moreover have "set (take (nat (s + b)) idx) \<subseteq> set (take (nat (min (b - nb) n)) idx)"
      proof -
        have "take (nat (s + b)) idx = take (nat e) idx"
          unfolding e_def n_def by (auto simp: min_def)
        moreover have "nat e \<le> nat (min (b - nb) n)" using diff en by simp
        ultimately show ?thesis using set_take_subset_set_take by metis
      qed
      ultimately show ?thesis
        unfolding ids_of_iter_body_dp Let_def
        using nb_def sl_def e_def n_def by auto
    qed
  qed
qed

lemma iter_loop_dp_cover:
  "snd (iter_loop_dp ts idx s rs) = Exhausted \<Longrightarrow>
     set idx \<subseteq> set (take (nat s) idx) \<union> ids_of (fst (iter_loop_dp ts idx s rs))"
proof (induction rs arbitrary: s)
  case Nil
  then show ?case by (simp split: if_splits)
next
  case (Cons r rs)
  show ?case
  proof (cases "s < int (length idx)")
    case False
    then show ?thesis by simp
  next
    case True
    show ?thesis
    proof (cases "random_choice r ts")
      case (Inl e)
      with True Cons.prems show ?thesis by simp
    next
      case (Inr t)
      obtain h w b where t: "t = (h, w, b)" by (cases t)
      obtain rest out where rec: "iter_loop_dp ts idx (s + b) rs = (rest, out)" by fastforce
      obtain y where body: "iter_body_dp idx s (h, w, b) = (s + b, y)"
        by (metis fst_iter_body_dp prod.collapse)
      from True Inr t rec body
      have unf: "iter_loop_dp ts idx s (r # rs) = (y @ rest, out)" by simp
      with Cons.prems have "out = Exhausted" by simp
      with Cons.IH [of "s + b"] rec
      have "set idx \<subseteq> set (take (nat (s + b)) idx) \<union> ids_of rest" by simp
      moreover from iter_body_dp_cover [OF True, of b h w] body
      have "set (take (nat (s + b)) idx) \<subseteq> set (take (nat s) idx) \<union> ids_of y" by simp
      ultimately show ?thesis unfolding unf by auto
    qed
  qed
qed

text \<open>
  With positive batch sizes each turn moves the start position forward, so as many
  random draws as the list has indices are enough for the pass to end.
\<close>

lemma iter_loop_dp_ends:
  assumes pos: "\<forall>(h, w, b) \<in> set ts. 0 < b" and ne: "ts \<noteq> []"
  shows "int (length idx) - s \<le> int (length rs) \<Longrightarrow> snd (iter_loop_dp ts idx s rs) = Exhausted"
proof (induction rs arbitrary: s)
  case Nil
  then show ?case by simp
next
  case (Cons r rs)
  show ?case
  proof (cases "s < int (length idx)")
    case False
    then show ?thesis by simp
  next
    case True
    from ne obtain t where ch: "random_choice r ts = Inr t" by (simp add: random_choice_def)
    obtain h w b where t: "t = (h, w, b)" by (cases t)
    from ch t pos have "0 < b" using random_choice_mem by fastforce
    with Cons.prems have "int (length idx) - (s + b) \<le> int (length rs)" by simp
    from Cons.IH [OF this] have ex: "snd (iter_loop_dp ts idx (s + b) rs) = Exhausted" .
    obtain y where body: "iter_body_dp idx s (h, w, b) = (s + b, y)"
      by (metis fst_iter_body_dp prod.collapse)
    obtain rest out where rec: "iter_loop_dp ts idx (s + b) rs = (rest, out)" by fastforce
    with ex have "out = Exhausted" by simp
    with True ch t body rec show ?thesis by simp
  qed
qed

lemma iter_dp_batches:
  assumes "\<forall>(h, w, b) \<in> set (img_batch_tuples s). 0 \<le> b"
  shows "\<exists>picks. length picks = length (fst (iter_dp s idx rs))
           \<and> (\<forall>k < length picks.
                 picks ! k \<in> set (img_batch_tuples s)
               \<and> start_at picks k < int (length idx)
               \<and> fst (iter_dp s idx rs) ! k = batch_at idx (start_at picks k) (picks ! k))"
  using iter_loop_dp_batches [OF assms, of 0 idx rs] unfolding iter_dp_def
  by (auto simp: start_at_def)

text \<open>
  C5. Every batch yielded by \<open>__iter__\<close> is produced by the stages enumerate indices,
  pick scale, yield batch. For batch sizes that are not negative there is, for the
  batches yielded in order, one tuple \<open>(crop_h, crop_w, batch_size)\<close> of
  \<open>img_batch_tuples\<close> each, such that the \<open>k\<close>-th batch is \<open>batch_at\<close> of its tuple at
  the start position \<open>start_at picks k\<close>: every element carries the tuple's
  \<open>(crop_h, crop_w)\<close>, and the sample indices are the contiguous slice of the index list
  that starts, inside the list, where the slice of the batch before ended (at \<open>0\<close> for
  the first batch), followed by the front of the list where the list ends before the
  slice is full. The first conjunct is \<open>VariableBatchSampler\<close>, the second
  \<open>VariableBatchSamplerDDP\<close>.
\<close>

theorem iter_stages:
  "((\<forall>(h, w, b) \<in> set (img_batch_tuples s). 0 \<le> b) \<longrightarrow>
      (\<exists>picks. length picks = length (fst (iter_dp s idx rs))
         \<and> (\<forall>k < length picks.
               picks ! k \<in> set (img_batch_tuples s)
             \<and> start_at picks k < int (length idx)
             \<and> fst (iter_dp s idx rs) ! k = batch_at idx (start_at picks k) (picks ! k))))
   \<and> ((\<forall>(h, w, b) \<in> set (img_batch_tuples d). 0 \<le> b) \<longrightarrow>
      (\<exists>picks. length picks = length (fst (iter_ddp d idx rs))
         \<and> (\<forall>k < length picks.
               picks ! k \<in> set (img_batch_tuples d)
             \<and> start_at picks k < int (length idx)
             \<and> fst (iter_ddp d idx rs) ! k = batch_at idx (start_at picks k) (picks ! k))))"
proof (intro conjI impI)
  assume "\<forall>(h, w, b) \<in> set (img_batch_tuples s). 0 \<le> b"
  then show "\<exists>picks. length picks = length (fst (iter_dp s idx rs))
         \<and> (\<forall>k < length picks.
               picks ! k \<in> set (img_batch_tuples s)
             \<and> start_at picks k < int (length idx)
             \<and> fst (iter_dp s idx rs) ! k = batch_at idx (start_at picks k) (picks ! k))"
    by (rule iter_dp_batches)
next
  assume "\<forall>(h, w, b) \<in> set (img_batch_tuples d). 0 \<le> b"
  from iter_loop_dp_batches [OF this, of 0 idx rs]
  show "\<exists>picks. length picks = length (fst (iter_ddp d idx rs))
         \<and> (\<forall>k < length picks.
               picks ! k \<in> set (img_batch_tuples d)
             \<and> start_at picks k < int (length idx)
             \<and> fst (iter_ddp d idx rs) ! k = batch_at idx (start_at picks k) (picks ! k))"
    unfolding iter_ddp_def iter_loop_ddp_eq by (auto simp: start_at_def)
qed

lemma example_iter:
  "iter_loop_dp [(160, 160, 4), (256, 256, 4), (320, 320, 4)] [10, 11, 12, 13, 14, 15, 16] 0
     (1 # 0 # rs) =
   ([[(256, 256, 10), (256, 256, 11), (256, 256, 12), (256, 256, 13)],
     [(160, 160, 14), (160, 160, 15), (160, 160, 16), (160, 160, 10)]], Exhausted)"
proof -
  have 1: "iter_body_dp [10, 11, 12, 13, 14, 15, 16] 0 (256, 256, 4) =
     (4, [[(256, 256, 10), (256, 256, 11), (256, 256, 12), (256, 256, 13)]])"
    by (simp add: iter_body_dp_def py_slice_def py_bound_def Let_def)
  have 2: "iter_body_dp [10, 11, 12, 13, 14, 15, 16] 4 (160, 160, 4) =
     (8, [[(160, 160, 14), (160, 160, 15), (160, 160, 16), (160, 160, 10)]])"
    by (simp add: iter_body_dp_def py_slice_def py_bound_def Let_def)
  have 3: "iter_loop_dp [(160, 160, 4), (256, 256, 4), (320, 320, 4)]
             [10, 11, 12, 13, 14, 15, 16] 8 rs = ([], Exhausted)"
    by (cases rs) simp_all
  show ?thesis by (simp add: random_choice_def 1 2 3)
qed

theorem iter_stages_witness:
  "img_batch_tuples example_dp = [(160, 160, 4), (256, 256, 4), (320, 320, 4)]
   \<and> iter_dp example_dp [10, 11, 12, 13, 14, 15, 16] [1, 0] =
       ([[(256, 256, 10), (256, 256, 11), (256, 256, 12), (256, 256, 13)],
         [(160, 160, 14), (160, 160, 15), (160, 160, 16), (160, 160, 10)]], Exhausted)
   \<and> (\<exists>picks. length picks = length (fst (iter_dp example_dp [10, 11, 12, 13, 14, 15, 16] [1, 0]))
         \<and> (\<forall>k < length picks.
               picks ! k \<in> set (img_batch_tuples example_dp)
             \<and> start_at picks k < int (length [10, 11, 12, 13, 14, 15, 16 :: int])
             \<and> fst (iter_dp example_dp [10, 11, 12, 13, 14, 15, 16] [1, 0]) ! k
                 = batch_at [10, 11, 12, 13, 14, 15, 16] (start_at picks k) (picks ! k)))
   \<and> img_batch_tuples example_ddp = [(160, 160, 4), (256, 256, 4), (320, 320, 4)]
   \<and> (\<exists>picks. length picks = length (fst (iter_ddp example_ddp [10, 11, 12, 13, 14, 15, 16] [1, 0]))
         \<and> (\<forall>k < length picks.
               picks ! k \<in> set (img_batch_tuples example_ddp)
             \<and> start_at picks k < int (length [10, 11, 12, 13, 14, 15, 16 :: int])
             \<and> fst (iter_ddp example_ddp [10, 11, 12, 13, 14, 15, 16] [1, 0]) ! k
                 = batch_at [10, 11, 12, 13, 14, 15, 16] (start_at picks k) (picks ! k)))"
proof -
  have a: "\<forall>(h, w, b) \<in> set (img_batch_tuples example_dp). 0 \<le> b"
    by (simp add: example_dp_fields)
  have b: "\<forall>(h, w, b) \<in> set (img_batch_tuples example_ddp). 0 \<le> b"
    by (simp add: example_ddp_fields)
  have c: "iter_dp example_dp [10, 11, 12, 13, 14, 15, 16] [1, 0] =
       ([[(256, 256, 10), (256, 256, 11), (256, 256, 12), (256, 256, 13)],
         [(160, 160, 14), (160, 160, 15), (160, 160, 16), (160, 160, 10)]], Exhausted)"
    by (simp only: iter_dp_def example_dp_fields example_iter)
  note inst = iter_stages [of example_dp "[10, 11, 12, 13, 14, 15, 16]" "[1, 0]" example_ddp]
  note r1 = inst [THEN conjunct1, THEN mp, OF a]
  note r2 = inst [THEN conjunct2, THEN mp, OF b]
  show ?thesis
    by (intro conjI) (rule example_dp_fields example_ddp_fields c r1 r2)+
qed

lemma iter_dp_full:
  assumes sz: "\<forall>(h, w, b) \<in> set (img_batch_tuples s). 0 \<le> b \<and> b \<le> int (length idx)"
      and B: "B \<in> set (fst (iter_loop_dp (img_batch_tuples s) idx 0 rs))"
  shows "\<exists>h w b start. (h, w, b) \<in> set (img_batch_tuples s)
           \<and> 0 \<le> start \<and> start < int (length idx)
           \<and> B = batch_at idx start (h, w, b) \<and> int (length B) = b"
proof -
  from sz have nn: "\<forall>(h, w, b) \<in> set (img_batch_tuples s). 0 \<le> b" by auto
  from iter_loop_dp_batches [OF nn, of 0 idx rs] obtain picks where
    len: "length picks = length (fst (iter_loop_dp (img_batch_tuples s) idx 0 rs))" and
    pk: "\<And>k. k < length picks \<Longrightarrow>
           picks ! k \<in> set (img_batch_tuples s) \<and> 0 < snd (snd (picks ! k))
         \<and> start_at picks k < int (length idx)
         \<and> fst (iter_loop_dp (img_batch_tuples s) idx 0 rs) ! k
             = batch_at idx (start_at picks k) (picks ! k)"
    by auto
  from B len obtain k where k: "k < length picks"
    and Bk: "B = fst (iter_loop_dp (img_batch_tuples s) idx 0 rs) ! k"
    by (metis in_set_conv_nth)
  obtain h w b where t: "picks ! k = (h, w, b)" by (cases "picks ! k")
  have st0: "0 \<le> start_at picks k"
  proof -
    have "\<forall>x \<in> set (take k picks). 0 \<le> (snd \<circ> snd) x"
    proof
      fix x assume "x \<in> set (take k picks)"
      then have "x \<in> set picks" by (rule in_set_takeD)
      then obtain j where "j < length picks" "x = picks ! j" by (metis in_set_conv_nth)
      with pk [of j] show "0 \<le> (snd \<circ> snd) x" by simp
    qed
    then show ?thesis unfolding start_at_def by (intro sum_list_nonneg) auto
  qed
  from pk [OF k] t have mem: "(h, w, b) \<in> set (img_batch_tuples s)"
    and lt: "start_at picks k < int (length idx)"
    and eq: "B = batch_at idx (start_at picks k) (h, w, b)"
    using Bk by simp_all
  from mem sz have "0 \<le> b" "b \<le> int (length idx)" by auto
  from length_batch_at [OF this st0 lt, of h w] eq have "int (length B) = b" by simp
  with mem st0 lt eq show ?thesis by blast
qed

text \<open>
  C7. For an index list whose length is at least every batch size of
  \<open>img_batch_tuples\<close> (batch sizes being sizes, none of them negative), every batch
  yielded by \<open>__iter__\<close> contains exactly \<open>batch_size\<close> elements of a tuple
  \<open>(crop_h, crop_w, batch_size)\<close> of \<open>img_batch_tuples\<close>: it is \<open>batch_at\<close> of that tuple
  at a start position inside the list, that is the indices from there on and, when
  fewer than \<open>batch_size\<close> of them remain, as many indices from the front of the list as
  are missing. The first conjunct is \<open>VariableBatchSampler\<close>, the second
  \<open>VariableBatchSamplerDDP\<close>.
\<close>

theorem iter_full_batches:
  "((\<forall>(h, w, b) \<in> set (img_batch_tuples s). 0 \<le> b \<and> b \<le> int (length idx))
      \<and> B \<in> set (fst (iter_dp s idx rs)) \<longrightarrow>
      (\<exists>h w b start. (h, w, b) \<in> set (img_batch_tuples s)
         \<and> 0 \<le> start \<and> start < int (length idx)
         \<and> B = batch_at idx start (h, w, b) \<and> int (length B) = b))
   \<and> ((\<forall>(h, w, b) \<in> set (img_batch_tuples d). 0 \<le> b \<and> b \<le> int (length idx))
      \<and> B \<in> set (fst (iter_ddp d idx rs)) \<longrightarrow>
      (\<exists>h w b start. (h, w, b) \<in> set (img_batch_tuples d)
         \<and> 0 \<le> start \<and> start < int (length idx)
         \<and> B = batch_at idx start (h, w, b) \<and> int (length B) = b))"
proof (intro conjI impI)
  assume "(\<forall>(h, w, b) \<in> set (img_batch_tuples s). 0 \<le> b \<and> b \<le> int (length idx))
      \<and> B \<in> set (fst (iter_dp s idx rs))"
  then show "\<exists>h w b start. (h, w, b) \<in> set (img_batch_tuples s)
         \<and> 0 \<le> start \<and> start < int (length idx)
         \<and> B = batch_at idx start (h, w, b) \<and> int (length B) = b"
    using iter_dp_full [of s idx B rs] by (simp add: iter_dp_def)
next
  let ?s = "\<lparr>min_crop_size_w = 0, max_crop_size_w = 0, min_crop_size_h = 0,
             max_crop_size_h = 0, crop_size_w = 0, crop_size_h = 0,
             min_scale_inc_factor = (), max_scale_inc_factor = (),
             scale_ep_intervals = EpList [], max_img_scales = 0, check_scale_div_factor = 0,
             scale_inc = False, batch_size_gpu0 = 0,
             img_batch_tuples = img_batch_tuples d, n_gpus = 0\<rparr>"
  assume "(\<forall>(h, w, b) \<in> set (img_batch_tuples d). 0 \<le> b \<and> b \<le> int (length idx))
      \<and> B \<in> set (fst (iter_ddp d idx rs))"
  then show "\<exists>h w b start. (h, w, b) \<in> set (img_batch_tuples d)
         \<and> 0 \<le> start \<and> start < int (length idx)
         \<and> B = batch_at idx start (h, w, b) \<and> int (length B) = b"
    using iter_dp_full [of ?s idx B rs] by (simp add: iter_ddp_def iter_loop_ddp_eq)
qed

theorem iter_full_batches_witness:
  "img_batch_tuples example_dp = [(160, 160, 4), (256, 256, 4), (320, 320, 4)]
   \<and> [(160, 160, 14), (160, 160, 15), (160, 160, 16), (160, 160, 10)]
       \<in> set (fst (iter_dp example_dp [10, 11, 12, 13, 14, 15, 16] [1, 0]))
   \<and> (\<exists>h w b start. (h, w, b) \<in> set (img_batch_tuples example_dp)
         \<and> 0 \<le> start \<and> start < int (length [10, 11, 12, 13, 14, 15, 16 :: int])
         \<and> [(160, 160, 14), (160, 160, 15), (160, 160, 16), (160, 160, 10)]
             = batch_at [10, 11, 12, 13, 14, 15, 16] start (h, w, b)
         \<and> int (length ([(160, 160, 14), (160, 160, 15), (160, 160, 16), (160, 160, 10)] :: batch)) = b)
   \<and> img_batch_tuples example_ddp = [(160, 160, 4), (256, 256, 4), (320, 320, 4)]
   \<and> [(160, 160, 14), (160, 160, 15), (160, 160, 16), (160, 160, 10)]
       \<in> set (fst (iter_ddp example_ddp [10, 11, 12, 13, 14, 15, 16] [1, 0]))
   \<and> (\<exists>h w b start. (h, w, b) \<in> set (img_batch_tuples example_ddp)
         \<and> 0 \<le> start \<and> start < int (length [10, 11, 12, 13, 14, 15, 16 :: int])
         \<and> [(160, 160, 14), (160, 160, 15), (160, 160, 16), (160, 160, 10)]
             = batch_at [10, 11, 12, 13, 14, 15, 16] start (h, w, b)
         \<and> int (length ([(160, 160, 14), (160, 160, 15), (160, 160, 16), (160, 160, 10)] :: batch)) = b)"
proof -
  have a: "\<forall>(h, w, b) \<in> set (img_batch_tuples example_dp).
       0 \<le> b \<and> b \<le> int (length [10, 11, 12, 13, 14, 15, 16 :: int])"
    by (simp add: example_dp_fields)
  have b: "[(160, 160, 14), (160, 160, 15), (160, 160, 16), (160, 160, 10)]
       \<in> set (fst (iter_dp example_dp [10, 11, 12, 13, 14, 15, 16] [1, 0]))"
    unfolding iter_dp_def example_dp_fields example_iter by simp
  have c: "\<forall>(h, w, b) \<in> set (img_batch_tuples example_ddp).
       0 \<le> b \<and> b \<le> int (length [10, 11, 12, 13, 14, 15, 16 :: int])"
    by (simp add: example_ddp_fields)
  have d: "[(160, 160, 14), (160, 160, 15), (160, 160, 16), (160, 160, 10)]
       \<in> set (fst (iter_ddp example_ddp [10, 11, 12, 13, 14, 15, 16] [1, 0]))"
    unfolding iter_ddp_def iter_loop_ddp_eq example_ddp_fields example_iter by simp
  note inst = iter_full_batches [of example_dp "[10, 11, 12, 13, 14, 15, 16]"
      "[(160, 160, 14), (160, 160, 15), (160, 160, 16), (160, 160, 10)]" "[1, 0]" example_ddp]
  note r1 = inst [THEN conjunct1, THEN mp, OF conjI [OF a b]]
  note r2 = inst [THEN conjunct2, THEN mp, OF conjI [OF c d]]
  show ?thesis
    by (intro conjI) (rule example_dp_fields example_ddp_fields b d r1 r2)+
qed

text \<open>
  C8. In one full pass of \<open>VariableBatchSampler.__iter__\<close> - a pass that ends with the
  generator exhausted - every index of the index list occurs in at least one batch
  yielded, whatever the tuples chosen. With positive batch sizes a pass does end, within
  as many draws as the list has indices.
\<close>

theorem iter_covers_indices:
  "(snd (iter_dp s idx rs) = Exhausted \<longrightarrow>
      (\<forall>i \<in> set idx. \<exists>B \<in> set (fst (iter_dp s idx rs)). \<exists>h w. (h, w, i) \<in> set B))
   \<and> (img_batch_tuples s \<noteq> [] \<and> (\<forall>(h, w, b) \<in> set (img_batch_tuples s). 0 < b)
        \<and> length idx \<le> length rs \<longrightarrow> snd (iter_dp s idx rs) = Exhausted)"
proof (intro conjI impI ballI)
  fix i
  assume ex: "snd (iter_dp s idx rs) = Exhausted" and i: "i \<in> set idx"
  from ex iter_loop_dp_cover [of "img_batch_tuples s" idx 0 rs] i
  have "i \<in> ids_of (fst (iter_dp s idx rs))" by (auto simp: iter_dp_def)
  then obtain B x where "B \<in> set (fst (iter_dp s idx rs))" "x \<in> set B" "snd (snd x) = i"
    by (auto simp: ids_of_def)
  then have "B \<in> set (fst (iter_dp s idx rs))" "(fst x, fst (snd x), i) \<in> set B" by auto
  then show "\<exists>B \<in> set (fst (iter_dp s idx rs)). \<exists>h w. (h, w, i) \<in> set B" by blast
next
  assume a: "img_batch_tuples s \<noteq> [] \<and> (\<forall>(h, w, b) \<in> set (img_batch_tuples s). 0 < b)
        \<and> length idx \<le> length rs"
  then have "\<forall>(h, w, b) \<in> set (img_batch_tuples s). 0 < b" "img_batch_tuples s \<noteq> []"
    by simp_all
  from iter_loop_dp_ends [OF this, of idx 0 rs] a
  show "snd (iter_dp s idx rs) = Exhausted" by (simp add: iter_dp_def)
qed

theorem iter_covers_indices_witness:
  "snd (iter_dp example_dp [10, 11, 12, 13, 14, 15, 16] [1, 0, 2, 0, 0, 0, 0]) = Exhausted
   \<and> (\<exists>B \<in> set (fst (iter_dp example_dp [10, 11, 12, 13, 14, 15, 16] [1, 0, 2, 0, 0, 0, 0])).
          \<exists>h w. (h, w, 16) \<in> set B)
   \<and> img_batch_tuples example_dp = [(160, 160, 4), (256, 256, 4), (320, 320, 4)]
   \<and> length [10, 11, 12, 13, 14, 15, 16 :: int] \<le> length [1, 0, 2, 0, 0, 0, 0 :: nat]"
proof -
  have b: "img_batch_tuples example_dp \<noteq> []
     \<and> (\<forall>(h, w, b) \<in> set (img_batch_tuples example_dp). 0 < b)
     \<and> length [10, 11, 12, 13, 14, 15, 16 :: int] \<le> length [1, 0, 2, 0, 0, 0, 0 :: nat]"
    by (simp add: example_dp_fields)
  note inst =
    iter_covers_indices [of example_dp "[10, 11, 12, 13, 14, 15, 16]" "[1, 0, 2, 0, 0, 0, 0]"]
  note a = inst [THEN conjunct2, THEN mp, OF b]
  have m: "16 \<in> set [10, 11, 12, 13, 14, 15, 16 :: int]" by simp
  note r1 = inst [THEN conjunct1, THEN mp, OF a, THEN bspec, OF m]
  show ?thesis
    by (intro conjI) (rule a r1 example_dp_fields b [THEN conjunct2, THEN conjunct2])+
qed

section \<open>Validation and evaluation mode\<close>



















section \<open>Properties of the dataset's \<open>__getitem__\<close>\<close>

lemma length_py_del: "j < length xs \<Longrightarrow> length (py_del xs j) = length xs - 1"
  by (auto simp: py_del_def)

lemma py_index_lt: "py_index xs i = Inr j \<Longrightarrow> j < length xs"
  by (auto simp: py_index_def Let_def split: if_splits)

lemma make_data_keys:
  "make_data transform_fn input_img target img_index ''label'' = Some (VInt target)"
  "make_data transform_fn input_img target img_index ''sample_id'' = Some (VInt img_index)"
  by (simp_all add: make_data_def Let_def)

text \<open>
  C2, as the code has it. For a call of \<open>__getitem__\<close> with \<open>(crop_h, crop_w, img_index)\<close>,
  \<open>img_index\<close> in the range of the sample list and the crop sizes not negative, whose
  image fails to decode: the sample at \<open>img_index\<close> is removed from the sample list, so
  \<open>__len__\<close> decreases by one and the other samples keep their order; and the call
  returns a data item for the removed sample, namely the transform of the mode applied
  to an all-zero image of shape \<open>(crop_h, crop_w, 3)\<close>, with \<open>label\<close> the removed sample's
  target and \<open>sample_id\<close> the index \<open>img_index\<close>.
\<close>

theorem getitem_corrupt_image:
  assumes "py_index (samples s) img_index = Inr j"
      and "read_image_opencv E (fst (samples s ! j)) = None"
      and "0 \<le> size_h" and "0 \<le> size_w"
  shows "getitem E s (size_h, size_w, img_index) =
           (Inr (make_data
                   (if is_training s then training_transforms E (size_h, size_w)
                    else validation_transforms E (size_h, size_w))
                   (replicate (nat size_h) (replicate (nat size_w) (replicate 3 0)))
                   (snd (samples s ! j)) img_index),
            s\<lparr>samples := take j (samples s) @ drop (Suc j) (samples s)\<rparr>)
       \<and> len_dataset (snd (getitem E s (size_h, size_w, img_index))) = len_dataset s - 1
       \<and> projr (fst (getitem E s (size_h, size_w, img_index))) ''label''
           = Some (VInt (snd (samples s ! j)))
       \<and> projr (fst (getitem E s (size_h, size_w, img_index))) ''sample_id''
           = Some (VInt img_index)"
proof -
  obtain img_path target where st: "samples s ! j = (img_path, target)" by fastforce
  from assms st have eq: "getitem E s (size_h, size_w, img_index) =
           (Inr (make_data
                   (if is_training s then training_transforms E (size_h, size_w)
                    else validation_transforms E (size_h, size_w))
                   (replicate (nat size_h) (replicate (nat size_w) (replicate 3 0)))
                   target img_index),
            s\<lparr>samples := take j (samples s) @ drop (Suc j) (samples s)\<rparr>)"
    by (simp add: getitem_def np_zeros_def py_del_def Let_def)
  from assms(1) have "j < length (samples s)" by (rule py_index_lt)
  then have "length (take j (samples s) @ drop (Suc j) (samples s)) = length (samples s) - 1"
    by auto
  with eq st show ?thesis by (simp add: len_dataset_def make_data_keys)
qed

lemma example_getitem:
  "getitem example_dataset_env example_dataset (2, 2, 1) =
     (Inr [''image'' \<mapsto> VImage [[[0, 0, 0], [0, 0, 0]], [[0, 0, 0], [0, 0, 0]]],
           ''label'' \<mapsto> VInt 7, ''sample_id'' \<mapsto> VInt 1],
      \<lparr>is_training = True, samples = [(''a.jpg'', 0), (''c.jpg'', 2)]\<rparr>)"
  by (simp add: getitem_def example_dataset_env_def example_dataset_def py_index_def
        np_zeros_def py_del_def make_data_def Let_def numeral_2_eq_2 numeral_3_eq_3)

theorem getitem_corrupt_image_witness:
  "py_index (samples example_dataset) 1 = Inr 1
   \<and> read_image_opencv example_dataset_env (fst (samples example_dataset ! 1)) = None
   \<and> (0 :: int) \<le> 2
   \<and> len_dataset (snd (getitem example_dataset_env example_dataset (2, 2, 1))) = 2
   \<and> projr (fst (getitem example_dataset_env example_dataset (2, 2, 1))) ''label''
       = Some (VInt 7)
   \<and> projr (fst (getitem example_dataset_env example_dataset (2, 2, 1))) ''sample_id''
       = Some (VInt 1)"
proof -
  have a: "py_index (samples example_dataset) 1 = Inr 1"
    by (simp add: example_dataset_def py_index_def)
  have b: "read_image_opencv example_dataset_env (fst (samples example_dataset ! 1)) = None"
    by (simp add: example_dataset_def example_dataset_env_def)
  have c: "(0 :: int) \<le> 2" by simp
  have t: "snd (samples example_dataset ! 1) = 7" by (simp add: example_dataset_def)
  have l: "len_dataset example_dataset - 1 = 2"
    by (simp add: len_dataset_def example_dataset_def)
  note inst = getitem_corrupt_image [OF a b c c]
  note r = inst [THEN conjunct2, unfolded t l]
  show ?thesis
    by (intro conjI a b c r [THEN conjunct1] r [THEN conjunct2, THEN conjunct1]
          r [THEN conjunct2, THEN conjunct2])
qed

text \<open>
  C2, as it is stated, fails: for the example dataset, whose image at index \<open>1\<close> does
  not decode, \<open>__getitem__\<close> does remove the sample (two of three samples are left), and
  it returns a data item all the same, an all-zero image under the removed sample's
  label \<open>7\<close> and sample id \<open>1\<close>.
\<close>

theorem getitem_corrupt_image_item_returned:
  "read_image_opencv example_dataset_env (fst (samples example_dataset ! 1)) = None
   \<and> len_dataset example_dataset = 3
   \<and> len_dataset (snd (getitem example_dataset_env example_dataset (2, 2, 1))) = 2
   \<and> fst (getitem example_dataset_env example_dataset (2, 2, 1)) =
       Inr [''image'' \<mapsto> VImage [[[0, 0, 0], [0, 0, 0]], [[0, 0, 0], [0, 0, 0]]],
            ''label'' \<mapsto> VInt 7, ''sample_id'' \<mapsto> VInt 1]"
  unfolding example_getitem
  by (simp add: example_dataset_def example_dataset_env_def len_dataset_def)

end
